theory Spec2Isabelle
  imports Complex_Main
begin

section \<open>The JetNet dataset class (src/jetnet.py)\<close>

text \<open>
  A shallow embedding of the class \<open>JetNet\<close>: the shape adjustment of \<open>load_dataset\<close>, the
  jet feature of \<open>get_jet_features\<close>, the scaling and shifting of \<open>normalize_features\<close> and
  \<open>unnormalize_features\<close>, the noise of \<open>add_noise_padding\<close>, the constructor and \<open>__len__\<close>.
  Reading the file from disk and the download are outside: the tensor that \<open>torch.load\<close>
  returns is an argument of the model, and so is the sample that \<open>torch.randn\<close> draws.
\<close>

subsection \<open>Tensor entries\<close>

text \<open>
  An entry of a float tensor is a finite number or one of the IEEE special values. A finite
  entry is modelled by the real number it denotes, so rounding, overflow and the sign of
  zero are outside the model. The special values are inside, since the code can produce
  them: it divides by numbers that may be zero, and torch does not raise there.
\<close>

datatype fval = Fin real | PInf | NInf | NaN

fun fneg :: "fval \<Rightarrow> fval" where
  "fneg (Fin x) = Fin (- x)"
| "fneg PInf = NInf"
| "fneg NInf = PInf"
| "fneg NaN = NaN"

fun fabs :: "fval \<Rightarrow> fval" where
  "fabs (Fin x) = Fin \<bar>x\<bar>"
| "fabs PInf = PInf"
| "fabs NInf = PInf"
| "fabs NaN = NaN"

fun fadd :: "fval \<Rightarrow> fval \<Rightarrow> fval" where
  "fadd (Fin x) (Fin y) = Fin (x + y)"
| "fadd NaN _ = NaN"
| "fadd _ NaN = NaN"
| "fadd PInf NInf = NaN"
| "fadd NInf PInf = NaN"
| "fadd PInf _ = PInf"
| "fadd _ PInf = PInf"
| "fadd NInf _ = NInf"
| "fadd _ NInf = NInf"

definition fsub :: "fval \<Rightarrow> fval \<Rightarrow> fval" where
  "fsub a b = fadd a (fneg b)"

text \<open>The sign of an infinite product or quotient: \<open>pos\<close> says that the result is positive.\<close>

definition signed_inf :: "bool \<Rightarrow> fval" where
  "signed_inf pos = (if pos then PInf else NInf)"

fun fmul :: "fval \<Rightarrow> fval \<Rightarrow> fval" where
  "fmul (Fin x) (Fin y) = Fin (x * y)"
| "fmul NaN _ = NaN"
| "fmul _ NaN = NaN"
| "fmul (Fin x) PInf = (if x = 0 then NaN else signed_inf (0 < x))"
| "fmul (Fin x) NInf = (if x = 0 then NaN else signed_inf (x < 0))"
| "fmul PInf (Fin y) = (if y = 0 then NaN else signed_inf (0 < y))"
| "fmul NInf (Fin y) = (if y = 0 then NaN else signed_inf (y < 0))"
| "fmul PInf PInf = PInf"
| "fmul PInf NInf = NInf"
| "fmul NInf PInf = NInf"
| "fmul NInf NInf = PInf"

text \<open>
  Division by zero gives NaN for 0/0 and an infinity otherwise; the zero divisors of the
  code are a maximum of absolute values and a Python integer, both +0.
\<close>

fun fdiv :: "fval \<Rightarrow> fval \<Rightarrow> fval" where
  "fdiv (Fin x) (Fin y) =
     (if y = 0 then (if x = 0 then NaN else signed_inf (0 < x)) else Fin (x / y))"
| "fdiv NaN _ = NaN"
| "fdiv _ NaN = NaN"
| "fdiv (Fin x) PInf = Fin 0"
| "fdiv (Fin x) NInf = Fin 0"
| "fdiv PInf (Fin y) = signed_inf (0 \<le> y)"
| "fdiv NInf (Fin y) = signed_inf (y < 0)"
| "fdiv PInf PInf = NaN"
| "fdiv PInf NInf = NaN"
| "fdiv NInf PInf = NaN"
| "fdiv NInf NInf = NaN"

text \<open>The comparison \<open><\<close> of IEEE: false as soon as one side is NaN.\<close>

fun flt :: "fval \<Rightarrow> fval \<Rightarrow> bool" where
  "flt (Fin x) (Fin y) = (x < y)"
| "flt NaN _ = False"
| "flt _ NaN = False"
| "flt NInf NInf = False"
| "flt NInf _ = True"
| "flt _ NInf = False"
| "flt PInf _ = False"
| "flt _ PInf = True"

definition fge :: "fval \<Rightarrow> fval \<Rightarrow> bool" where
  "fge a b = (a = b \<and> a \<noteq> NaN \<or> flt b a)"

text \<open>\<open>torch.max\<close> of two entries: NaN wins.\<close>

definition fmax :: "fval \<Rightarrow> fval \<Rightarrow> fval" where
  "fmax a b = (if a = NaN \<or> b = NaN then NaN else if flt a b then b else a)"

text \<open>\<open>.bool()\<close> of an entry: everything but zero is true, NaN included.\<close>

definition nonzero :: "fval \<Rightarrow> bool" where
  "nonzero a = (a \<noteq> Fin 0)"

definition is_special :: "fval \<Rightarrow> bool" where
  "is_special a = (case a of Fin _ \<Rightarrow> False | _ \<Rightarrow> True)"

subsection \<open>Errors\<close>

datatype error =
    AttributeError | IndexError | RuntimeError | TypeError | ValueError | OverflowError
  | UnboundLocalError

definition bind_err :: "error + 'a \<Rightarrow> ('a \<Rightarrow> error + 'b) \<Rightarrow> error + 'b" where
  "bind_err m f = (case m of Inl e \<Rightarrow> Inl e | Inr x \<Rightarrow> f x)"

definition map_result :: "('a \<Rightarrow> 'b) \<Rightarrow> error + 'a \<Rightarrow> error + 'b" where
  "map_result g m = (case m of Inl e \<Rightarrow> Inl e | Inr x \<Rightarrow> Inr (g x))"

text \<open>\<open>xs[i]\<close> for a Python list and an index that is not negative.\<close>

definition index :: "'a list \<Rightarrow> nat \<Rightarrow> error + 'a" where
  "index xs i = (if i < length xs then Inr (xs ! i) else Inl IndexError)"

subsection \<open>Tensors of shape [jets, particles, features]\<close>

record tensor =
  shape0 :: nat
  shape1 :: nat
  shape2 :: nat
  el :: "nat \<Rightarrow> nat \<Rightarrow> nat \<Rightarrow> fval"

definition same_shape :: "tensor \<Rightarrow> tensor \<Rightarrow> bool" where
  "same_shape s t = (shape0 s = shape0 t \<and> shape1 s = shape1 t \<and> shape2 s = shape2 t)"

text \<open>A tensor of shape [rows, cols]: a column of a dataset, or the jet features.\<close>

record matrix =
  rows :: nat
  cols :: nat
  mel :: "nat \<Rightarrow> nat \<Rightarrow> fval"

record bmatrix =
  brows :: nat
  bcols :: nat
  bel :: "nat \<Rightarrow> nat \<Rightarrow> bool"

text \<open>\<open>dataset[:, :, i]\<close>, as a value.\<close>

definition column :: "tensor \<Rightarrow> nat \<Rightarrow> matrix" where
  "column t i = \<lparr>rows = shape0 t, cols = shape1 t, mel = (\<lambda>n p. el t n p i)\<rparr>"

text \<open>The entries of a matrix in row-major order.\<close>

definition entries :: "matrix \<Rightarrow> fval list" where
  "entries m = concat (map (\<lambda>n. map (\<lambda>p. mel m n p) [0..<cols m]) [0..<rows m])"

text \<open>An in-place operation such as \<open>dataset[:, :, i] /= c\<close>: \<open>g\<close> on every entry of column \<open>i\<close>.\<close>

definition col_map :: "(fval \<Rightarrow> fval) \<Rightarrow> nat \<Rightarrow> tensor \<Rightarrow> tensor" where
  "col_map g i t = t\<lparr>el := (\<lambda>n p f. (if f = i then g else (\<lambda>v. v)) (el t n p f))\<rparr>"

text \<open>The bound \<open>k\<close> of a Python slice \<open>[:k]\<close> or \<open>[k:]\<close> on an axis of length \<open>n\<close>.\<close>

definition slice_bound :: "nat \<Rightarrow> int \<Rightarrow> nat" where
  "slice_bound n k = (if k < 0 then nat (max 0 (int n + k)) else min n (nat k))"

definition jets_upto :: "tensor \<Rightarrow> int \<Rightarrow> tensor" where
  "jets_upto t k = t\<lparr>shape0 := slice_bound (shape0 t) k\<rparr>"

definition jets_from :: "tensor \<Rightarrow> int \<Rightarrow> tensor" where
  "jets_from t k = (let b = slice_bound (shape0 t) k in
     t\<lparr>shape0 := shape0 t - b, el := (\<lambda>n. el t (n + b))\<rparr>)"

definition rows_upto :: "matrix \<Rightarrow> int \<Rightarrow> matrix" where
  "rows_upto m k = m\<lparr>rows := slice_bound (rows m) k\<rparr>"

definition rows_from :: "matrix \<Rightarrow> int \<Rightarrow> matrix" where
  "rows_from m k = (let b = slice_bound (rows m) k in
     m\<lparr>rows := rows m - b, mel := (\<lambda>n. mel m (n + b))\<rparr>)"

subsection \<open>load_dataset\<close>

text \<open>\<open>dataset[:, :k, :]\<close> for \<open>k\<close> that is not negative.\<close>

definition particles_upto :: "tensor \<Rightarrow> nat \<Rightarrow> tensor" where
  "particles_upto t k = t\<lparr>shape1 := min k (shape1 t)\<rparr>"

text \<open>\<open>torch.nn.functional.pad(dataset, (0, 0, 0, k), "constant", 0)\<close>.\<close>

definition pad_particles :: "tensor \<Rightarrow> nat \<Rightarrow> tensor" where
  "pad_particles t k =
     t\<lparr>shape1 := shape1 t + k, el := (\<lambda>n p f. if p < shape1 t then el t n p f else Fin 0)\<rparr>"

text \<open>\<open>dataset[:, :, :-1]\<close>.\<close>

definition drop_last_feature :: "tensor \<Rightarrow> tensor" where
  "drop_last_feature t = t\<lparr>shape2 := shape2 t - 1\<rparr>"

text \<open>
  \<open>load_dataset\<close>, from the tensor \<open>raw\<close> that \<open>torch.load(pt_file).float()\<close> returns. No branch
  of it raises.
\<close>

definition load_dataset :: "tensor \<Rightarrow> int \<Rightarrow> int \<Rightarrow> bool \<Rightarrow> tensor" where
  "load_dataset raw num_particles num_pad_particles use_mask =
     (let dataset = raw;
          dataset = (if 0 < num_particles - num_pad_particles
                        \<and> num_particles - num_pad_particles < int (shape1 dataset)
                     then particles_upto dataset (nat (num_particles - num_pad_particles))
                     else dataset);
          dataset = (if num_pad_particles > 0
                     then pad_particles dataset (nat num_pad_particles) else dataset);
          dataset = (if \<not> use_mask then drop_last_feature dataset else dataset)
      in dataset)"

subsection \<open>The instance and its attributes\<close>

text \<open>
  An instance is its attribute dictionary. Reading an attribute that no statement has
  assigned raises AttributeError; the base class \<open>torch.utils.data.Dataset\<close> defines no data
  attribute.
\<close>

datatype pyval =
    VBool bool
  | VInt int
  | VFloat fval
  | VOptFloats "fval option list"
  | VFloats "fval list"
  | VTensor tensor
  | VMatrix matrix

type_synonym obj = "string \<Rightarrow> pyval option"

definition getattr :: "obj \<Rightarrow> string \<Rightarrow> error + pyval" where
  "getattr self name = (case self name of None \<Rightarrow> Inl AttributeError | Some v \<Rightarrow> Inr v)"

text \<open>The truth value that \<open>if\<close> and \<open>and\<close> take of a Python value.\<close>

fun truthy :: "pyval \<Rightarrow> error + bool" where
  "truthy (VBool b) = Inr b"
| "truthy (VInt i) = Inr (i \<noteq> 0)"
| "truthy (VFloat v) = Inr (nonzero v)"
| "truthy (VOptFloats xs) = Inr (xs \<noteq> [])"
| "truthy (VFloats xs) = Inr (xs \<noteq> [])"
| "truthy (VTensor t) = Inl RuntimeError"
| "truthy (VMatrix m) = Inl RuntimeError"

text \<open>A Python number as the scalar of a tensor operation.\<close>

fun as_number :: "pyval \<Rightarrow> error + fval" where
  "as_number (VBool b) = Inr (Fin (if b then 1 else 0))"
| "as_number (VInt i) = Inr (Fin (of_int i))"
| "as_number (VFloat v) = Inr v"
| "as_number _ = Inl TypeError"

fun as_int :: "pyval \<Rightarrow> error + int" where
  "as_int (VBool b) = Inr (if b then 1 else 0)"
| "as_int (VInt i) = Inr i"
| "as_int _ = Inl TypeError"

fun as_optfloats :: "pyval \<Rightarrow> error + fval option list" where
  "as_optfloats (VOptFloats xs) = Inr xs"
| "as_optfloats (VFloats xs) = Inr (map Some xs)"
| "as_optfloats _ = Inl TypeError"

fun as_floats :: "pyval \<Rightarrow> error + fval list" where
  "as_floats (VFloats xs) = Inr xs"
| "as_floats _ = Inl TypeError"

text \<open>\<open>len(v)\<close>.\<close>

fun py_len :: "pyval \<Rightarrow> error + nat" where
  "py_len (VOptFloats xs) = Inr (length xs)"
| "py_len (VFloats xs) = Inr (length xs)"
| "py_len (VTensor t) = Inr (shape0 t)"
| "py_len (VMatrix m) = Inr (rows m)"
| "py_len _ = Inl TypeError"

text \<open>\<open>for i in range(n): body\<close>, where the body may raise.\<close>

fun for_each :: "(nat \<Rightarrow> 's \<Rightarrow> error + 's) \<Rightarrow> nat list \<Rightarrow> 's \<Rightarrow> error + 's" where
  "for_each body [] s = Inr s"
| "for_each body (i # is) s =
     (case body i s of Inl e \<Rightarrow> Inl e | Inr s' \<Rightarrow> for_each body is s')"

subsection \<open>get_jet_features\<close>

text \<open>\<open>torch.sum(m, dim=1)\<close> at row \<open>n\<close>.\<close>

definition row_sum :: "matrix \<Rightarrow> nat \<Rightarrow> fval" where
  "row_sum m n = foldl fadd (Fin 0) (map (\<lambda>p. mel m n p) [0..<cols m])"

definition get_jet_features :: "obj \<Rightarrow> tensor \<Rightarrow> bool \<Rightarrow> error + matrix" where
  "get_jet_features self dataset use_num_particles_jet_feature =
     (if shape2 dataset \<le> 3 then Inl IndexError
      else bind_err (getattr self ''num_particles'') (\<lambda>v.
           bind_err (as_number v) (\<lambda>d.
             Inr \<lparr>rows = shape0 dataset, cols = 1,
                  mel = (\<lambda>n c. fdiv (row_sum (column dataset 3) n) d)\<rparr>)))"

subsection \<open>normalize_features\<close>

text \<open>\<open>float(torch.max(torch.abs(dataset[:, :, i])))\<close>; \<open>torch.max\<close> raises on an empty tensor.\<close>

definition max_abs :: "tensor \<Rightarrow> nat \<Rightarrow> error + fval" where
  "max_abs dataset i =
     (case entries (column dataset i) of
        [] \<Rightarrow> Inl RuntimeError
      | v # vs \<Rightarrow> Inr (foldl fmax (fabs v) (map fabs vs)))"

fun collect :: "(nat \<Rightarrow> error + 'a) \<Rightarrow> nat list \<Rightarrow> error + 'a list" where
  "collect g [] = Inr []"
| "collect g (i # is) =
     (case g i of Inl e \<Rightarrow> Inl e
      | Inr x \<Rightarrow> (case collect g is of Inl e \<Rightarrow> Inl e | Inr xs \<Rightarrow> Inr (x # xs)))"

text \<open>The body of the loop of \<open>normalize_features\<close>, for feature \<open>i\<close>.\<close>

definition normalize_step ::
  "fval option list \<Rightarrow> fval option list \<Rightarrow> fval list \<Rightarrow> nat \<Rightarrow> tensor \<Rightarrow> error + tensor" where
  "normalize_step feature_norms feature_shifts feature_maxes i dataset =
     bind_err (index feature_norms i) (\<lambda>norm.
     bind_err (case norm of
                 None \<Rightarrow> Inr dataset
               | Some m \<Rightarrow> bind_err (index feature_maxes i) (\<lambda>mx.
                   Inr (col_map (\<lambda>v. fmul v m) i (col_map (\<lambda>v. fdiv v mx) i dataset))))
       (\<lambda>dataset.
     bind_err (index feature_shifts i) (\<lambda>shift.
       Inr (case shift of
              None \<Rightarrow> dataset
            | Some s \<Rightarrow> if s \<noteq> Fin 0 then col_map (\<lambda>v. fadd v s) i dataset else dataset))))"

text \<open>
  \<open>torch.unique(m, sorted=True)\<close>: the distinct entries in ascending order; NaN is equal to
  nothing, so every NaN stays, after the others.
\<close>

fun insert_unique :: "fval \<Rightarrow> fval list \<Rightarrow> fval list" where
  "insert_unique v [] = [v]"
| "insert_unique v (u # us) =
     (if flt v u then v # u # us else if v = u then u # us else u # insert_unique v us)"

definition unique_sorted :: "fval list \<Rightarrow> fval list" where
  "unique_sorted vs =
     foldr insert_unique (filter (\<lambda>v. v \<noteq> NaN) vs) [] @ filter (\<lambda>v. v = NaN) vs"

definition pt_cutoff_of :: "tensor \<Rightarrow> error + fval" where
  "pt_cutoff_of dataset =
     (if shape2 dataset \<le> 2 then Inl IndexError
      else index (unique_sorted (entries (column dataset 2))) 1)"

definition normalize_features ::
  "tensor \<Rightarrow> fval option list \<Rightarrow> fval option list \<Rightarrow> error + (tensor \<times> fval list \<times> fval)" where
  "normalize_features dataset feature_norms feature_shifts =
     (let num_features = shape2 dataset in
      bind_err (collect (max_abs dataset) [0..<num_features]) (\<lambda>feature_maxes.
      bind_err (for_each (normalize_step feature_norms feature_shifts feature_maxes)
                  [0..<num_features] dataset) (\<lambda>dataset.
      bind_err (pt_cutoff_of dataset) (\<lambda>pt_cutoff.
        Inr (dataset, feature_maxes, pt_cutoff)))))"

subsection \<open>unnormalize_features\<close>

definition attr_optfloats :: "obj \<Rightarrow> string \<Rightarrow> error + fval option list" where
  "attr_optfloats self name = bind_err (getattr self name) as_optfloats"

definition attr_floats :: "obj \<Rightarrow> string \<Rightarrow> error + fval list" where
  "attr_floats self name = bind_err (getattr self name) as_floats"

definition attr_truthy :: "obj \<Rightarrow> string \<Rightarrow> error + bool" where
  "attr_truthy self name = bind_err (getattr self name) truthy"

text \<open>The body of the loop of \<open>unnormalize_features\<close>, for feature \<open>i\<close>.\<close>

definition unnormalize_step :: "obj \<Rightarrow> nat \<Rightarrow> tensor \<Rightarrow> error + tensor" where
  "unnormalize_step self i dataset =
     bind_err (attr_optfloats self ''feature_shifts'') (\<lambda>feature_shifts.
     bind_err (index feature_shifts i) (\<lambda>shift.
     let dataset = (case shift of
                      None \<Rightarrow> dataset
                    | Some s \<Rightarrow> if s \<noteq> Fin 0 then col_map (\<lambda>v. fsub v s) i dataset
                                else dataset) in
     bind_err (attr_optfloats self ''feature_norms'') (\<lambda>feature_norms.
     bind_err (index feature_norms i) (\<lambda>norm.
       case norm of
         None \<Rightarrow> Inr dataset
       | Some m \<Rightarrow>
           bind_err (attr_floats self ''feature_maxes'') (\<lambda>feature_maxes.
           bind_err (index feature_maxes i) (\<lambda>mx.
             Inr (col_map (\<lambda>v. fmul v mx) i (col_map (\<lambda>v. fdiv v m) i dataset))))))))"

text \<open>\<open>dataset[:, :, -1] >= 0.5\<close>.\<close>

definition mask_of :: "tensor \<Rightarrow> bmatrix" where
  "mask_of dataset =
     \<lparr>brows = shape0 dataset, bcols = shape1 dataset,
      bel = (\<lambda>n p. fge (el dataset n p (shape2 dataset - 1)) (Fin (1/2)))\<rparr>"

text \<open>\<open>dataset[~mask] = 0\<close>.\<close>

definition zero_unmasked :: "bmatrix \<Rightarrow> tensor \<Rightarrow> tensor" where
  "zero_unmasked mask' dataset =
     dataset\<lparr>el := (\<lambda>n p f. if bel mask' n p then el dataset n p f else Fin 0)\<rparr>"

text \<open>\<open>dataset[:, :, 2][dataset[:, :, 2] < 0] = 0\<close>.\<close>

definition zero_negative :: "fval \<Rightarrow> fval" where
  "zero_negative v = (if flt v (Fin 0) then Fin 0 else v)"

text \<open>
  The array after the call: \<open>unnormalize_features\<close> works in place, so this is what the
  argument holds when the call returns. The mask is returned with it.
\<close>

definition unnormalize_array ::
  "obj \<Rightarrow> tensor \<Rightarrow> bool \<Rightarrow> bool \<Rightarrow> bool \<Rightarrow> error + (tensor \<times> bmatrix option)" where
  "unnormalize_array self dataset is_real_data zero_mask_particles zero_neg_pt =
     (let num_features = shape2 dataset in
      bind_err (for_each (unnormalize_step self) [0..<num_features] dataset) (\<lambda>dataset.
      bind_err (attr_truthy self ''use_mask'') (\<lambda>use_mask.
      bind_err (if use_mask
                then (if shape2 dataset = 0 then Inl IndexError else Inr (Some (mask_of dataset)))
                else Inr None) (\<lambda>mask.
      bind_err (if \<not> is_real_data \<and> zero_mask_particles
                then bind_err (attr_truthy self ''use_mask'') (\<lambda>use_mask.
                       Inr (case mask of
                              Some m \<Rightarrow> if use_mask then zero_unmasked m dataset else dataset
                            | None \<Rightarrow> dataset))
                else Inr dataset) (\<lambda>dataset.
      bind_err (if \<not> is_real_data \<and> zero_neg_pt
                then (if shape2 dataset \<le> 2 then Inl IndexError
                      else Inr (col_map zero_negative 2 dataset))
                else Inr dataset) (\<lambda>dataset.
        Inr (dataset, mask)))))))"

text \<open>What a call can return: a tensor, a column of one, a mask, None, or a pair of these.\<close>

datatype pyret =
    RTensor tensor
  | RColumn matrix
  | RMask bmatrix
  | RNone
  | RTuple pyret pyret

text \<open>
  The return statement is \<open>return dataset[:, :, -1], mask if ret_mask_separate else dataset\<close>:
  the conditional expression binds tighter than the comma, so it is the second component
  of a pair.
\<close>

definition unnormalize_features ::
  "obj \<Rightarrow> tensor \<Rightarrow> bool \<Rightarrow> bool \<Rightarrow> bool \<Rightarrow> bool \<Rightarrow> error + pyret" where
  "unnormalize_features self dataset ret_mask_separate is_real_data zero_mask_particles zero_neg_pt =
     bind_err (unnormalize_array self dataset is_real_data zero_mask_particles zero_neg_pt)
       (\<lambda>(dataset, mask).
          if shape2 dataset = 0 then Inl IndexError
          else Inr (RTuple (RColumn (column dataset (shape2 dataset - 1)))
                      (if ret_mask_separate
                       then (case mask of None \<Rightarrow> RNone | Some m \<Rightarrow> RMask m)
                       else RTensor dataset)))"

subsection \<open>add_noise_padding\<close>

text \<open>An operation on every entry, such as \<open>noise_padding[noise_padding > 1] = 1\<close>.\<close>

definition tensor_map :: "(fval \<Rightarrow> fval) \<Rightarrow> tensor \<Rightarrow> tensor" where
  "tensor_map g t = t\<lparr>el := (\<lambda>n p f. g (el t n p f))\<rparr>"

text \<open>\<open>(dataset[:, :, 3] + 0.5).bool()\<close>.\<close>

definition noise_mask :: "tensor \<Rightarrow> bmatrix" where
  "noise_mask dataset =
     \<lparr>brows = shape0 dataset, bcols = shape1 dataset,
      bel = (\<lambda>n p. nonzero (fadd (el dataset n p 3) (Fin (1/2))))\<rparr>"

text \<open>\<open>noise_padding[mask] = 0\<close>.\<close>

definition zero_masked :: "bmatrix \<Rightarrow> tensor \<Rightarrow> tensor" where
  "zero_masked mask' t = t\<lparr>el := (\<lambda>n p f. if bel mask' n p then Fin 0 else el t n p f)\<rparr>"

text \<open>\<open>torch.cat((t, torch.zeros((shape0 t, shape1 t, 1))), dim=2)\<close>.\<close>

definition cat_zeros :: "tensor \<Rightarrow> tensor" where
  "cat_zeros t =
     t\<lparr>shape2 := shape2 t + 1, el := (\<lambda>n p f. if f < shape2 t then el t n p f else Fin 0)\<rparr>"

text \<open>\<open>dataset += other\<close> for two tensors of one shape.\<close>

definition tensor_add :: "tensor \<Rightarrow> tensor \<Rightarrow> tensor" where
  "tensor_add dataset other = dataset\<lparr>el := (\<lambda>n p f. fadd (el dataset n p f) (el other n p f))\<rparr>"

text \<open>
  \<open>randn\<close> is the sample that \<open>torch.randn\<close> draws, by index. \<open>torch.randn\<close> raises on a
  negative dimension, and \<open>noise_padding[mask] = 0\<close> raises unless the mask has the shape of
  the first two axes of the noise; then the sum has the shape of the dataset.
\<close>

definition add_noise_padding ::
  "obj \<Rightarrow> (nat \<Rightarrow> nat \<Rightarrow> nat \<Rightarrow> fval) \<Rightarrow> tensor \<Rightarrow> error + tensor" where
  "add_noise_padding self randn dataset =
     bind_err (bind_err (getattr self ''num_particles'') as_int) (\<lambda>num_particles.
     if num_particles < 0 \<or> shape2 dataset = 0 then Inl RuntimeError
     else
       let noise_padding = \<lparr>shape0 = shape0 dataset, shape1 = nat num_particles,
                             shape2 = shape2 dataset - 1, el = randn\<rparr>;
           noise_padding = tensor_map (\<lambda>v. fdiv v (Fin 5)) noise_padding;
           noise_padding = tensor_map (\<lambda>v. if flt (Fin 1) v then Fin 1 else v) noise_padding;
           noise_padding = tensor_map (\<lambda>v. if flt v (Fin (- 1)) then Fin (- 1) else v) noise_padding
       in
       if shape2 noise_padding \<le> 2 then Inl IndexError
       else
         let noise_padding = col_map (\<lambda>v. fdiv v (Fin 2)) 2 noise_padding in
         if shape2 dataset \<le> 3 then Inl IndexError
         else
           let mask = noise_mask dataset in
           if brows mask \<noteq> shape0 noise_padding \<or> bcols mask \<noteq> shape1 noise_padding
           then Inl IndexError
           else
             let noise_padding = zero_masked mask noise_padding
             in Inr (tensor_add dataset (cat_zeros noise_padding)))"

subsection \<open>The in-place operations on a store\<close>

text \<open>
  \<open>normalize_features\<close> and \<open>unnormalize_features\<close> change the tensor they are given: every
  statement of theirs that writes is an in-place operation on the argument. Here the
  argument is an address of a store of tensors, and each such statement updates the store
  at that address. A call that raises leaves the store as it is at that point.
\<close>

type_synonym addr = nat
type_synonym store = "addr \<Rightarrow> tensor"

definition inplace :: "addr \<Rightarrow> (tensor \<Rightarrow> tensor) \<Rightarrow> store \<Rightarrow> store" where
  "inplace a g h = (\<lambda>b. (if b = a then g else (\<lambda>t. t)) (h b))"

definition raise_or :: "error + 'a \<Rightarrow> ('a \<Rightarrow> store \<Rightarrow> store \<times> (error + 'b)) \<Rightarrow> store
    \<Rightarrow> store \<times> (error + 'b)" where
  "raise_or m k h = (case m of Inl e \<Rightarrow> (h, Inl e) | Inr x \<Rightarrow> k x h)"

fun for_each_st :: "(nat \<Rightarrow> store \<Rightarrow> store \<times> (error + unit)) \<Rightarrow> nat list \<Rightarrow> store
    \<Rightarrow> store \<times> (error + unit)" where
  "for_each_st body [] h = (h, Inr ())"
| "for_each_st body (i # is) h =
     (case body i h of (h', Inl e) \<Rightarrow> (h', Inl e) | (h', Inr _) \<Rightarrow> for_each_st body is h')"

definition normalize_step_st ::
  "fval option list \<Rightarrow> fval option list \<Rightarrow> fval list \<Rightarrow> addr \<Rightarrow> nat \<Rightarrow> store
    \<Rightarrow> store \<times> (error + unit)" where
  "normalize_step_st feature_norms feature_shifts feature_maxes dataset i =
     raise_or (index feature_norms i) (\<lambda>norm.
     raise_or (case norm of None \<Rightarrow> Inr None
               | Some m \<Rightarrow> map_result (\<lambda>mx. Some (m, mx)) (index feature_maxes i)) (\<lambda>scale h.
       let h = (case scale of
                  None \<Rightarrow> h
                | Some (m, mx) \<Rightarrow>
                    inplace dataset (col_map (\<lambda>v. fmul v m) i)
                      (inplace dataset (col_map (\<lambda>v. fdiv v mx) i) h))
       in raise_or (index feature_shifts i) (\<lambda>shift h.
            ((case shift of
                None \<Rightarrow> h
              | Some s \<Rightarrow> if s \<noteq> Fin 0 then inplace dataset (col_map (\<lambda>v. fadd v s) i) h
                          else h), Inr ())) h))"

text \<open>The first component of the result is the reference that the call returns.\<close>

definition normalize_features_st ::
  "addr \<Rightarrow> fval option list \<Rightarrow> fval option list \<Rightarrow> store
    \<Rightarrow> store \<times> (error + (addr \<times> fval list \<times> fval))" where
  "normalize_features_st dataset feature_norms feature_shifts h =
     (let num_features = shape2 (h dataset) in
      raise_or (collect (max_abs (h dataset)) [0..<num_features]) (\<lambda>feature_maxes h.
        case for_each_st
               (normalize_step_st feature_norms feature_shifts feature_maxes dataset)
               [0..<num_features] h of
          (h, Inl e) \<Rightarrow> (h, Inl e)
        | (h, Inr _) \<Rightarrow>
            raise_or (pt_cutoff_of (h dataset)) (\<lambda>pt_cutoff h.
              (h, Inr (dataset, feature_maxes, pt_cutoff))) h) h)"

definition unnormalize_step_st :: "obj \<Rightarrow> addr \<Rightarrow> nat \<Rightarrow> store \<Rightarrow> store \<times> (error + unit)" where
  "unnormalize_step_st self dataset i =
     raise_or (attr_optfloats self ''feature_shifts'') (\<lambda>feature_shifts.
     raise_or (index feature_shifts i) (\<lambda>shift h.
       let h = (case shift of
                  None \<Rightarrow> h
                | Some s \<Rightarrow> if s \<noteq> Fin 0 then inplace dataset (col_map (\<lambda>v. fsub v s) i) h
                            else h)
       in raise_or (attr_optfloats self ''feature_norms'') (\<lambda>feature_norms.
          raise_or (index feature_norms i) (\<lambda>norm h.
            case norm of
              None \<Rightarrow> (h, Inr ())
            | Some m \<Rightarrow>
                raise_or (attr_floats self ''feature_maxes'') (\<lambda>feature_maxes.
                raise_or (index feature_maxes i) (\<lambda>mx h.
                  (inplace dataset (col_map (\<lambda>v. fmul v mx) i) h, Inr ())))
                  (inplace dataset (col_map (\<lambda>v. fdiv v m) i) h))) h))"

text \<open>
  What the call returns, with references: the argument itself, a view of one column of it,
  a mask (a new tensor of booleans), None, or a pair.
\<close>

datatype ref = Ref addr | ColumnView addr nat | Mask bmatrix | NoneRef | Tuple ref ref

definition unnormalize_features_st ::
  "obj \<Rightarrow> addr \<Rightarrow> bool \<Rightarrow> bool \<Rightarrow> bool \<Rightarrow> bool \<Rightarrow> store \<Rightarrow> store \<times> (error + ref)" where
  "unnormalize_features_st self dataset ret_mask_separate is_real_data zero_mask_particles
       zero_neg_pt h =
     (let num_features = shape2 (h dataset) in
      case for_each_st (unnormalize_step_st self dataset) [0..<num_features] h of
        (h, Inl e) \<Rightarrow> (h, Inl e)
      | (h, Inr _) \<Rightarrow>
          raise_or (attr_truthy self ''use_mask'') (\<lambda>use_mask.
          raise_or (if use_mask
                    then (if shape2 (h dataset) = 0 then Inl IndexError
                          else Inr (Some (mask_of (h dataset))))
                    else Inr None) (\<lambda>mask.
          raise_or (if \<not> is_real_data \<and> zero_mask_particles
                    then attr_truthy self ''use_mask'' else Inr False) (\<lambda>zero h.
            let h = (case mask of
                       Some m \<Rightarrow> if zero then inplace dataset (zero_unmasked m) h else h
                     | None \<Rightarrow> h)
            in raise_or (if \<not> is_real_data \<and> zero_neg_pt \<and> shape2 (h dataset) \<le> 2
                         then Inl IndexError else Inr ()) (\<lambda>_ h.
                 let h = (if \<not> is_real_data \<and> zero_neg_pt
                          then inplace dataset (col_map zero_negative 2) h else h)
                 in raise_or (if shape2 (h dataset) = 0 then Inl IndexError else Inr ())
                      (\<lambda>_ h.
                        (h, Inr (Tuple (ColumnView dataset (shape2 (h dataset) - 1))
                                   (if ret_mask_separate
                                    then (case mask of None \<Rightarrow> NoneRef | Some m \<Rightarrow> Mask m)
                                    else Ref dataset)))) h) h))) h)"

subsection \<open>The constructor and __len__\<close>

text \<open>
  The arguments of \<open>__init__\<close>. \<open>jet_type\<close>, \<open>data_dir\<close> and \<open>download\<close> choose the file; what
  the file holds is the argument \<open>raw\<close> of \<open>init\<close>.
\<close>

record config =
  num_particles :: int
  feature_norms :: "fval option list"
  feature_shifts :: "fval option list"
  use_mask :: bool
  train :: bool
  train_fraction :: fval
  num_pad_particles :: int
  use_num_particles_jet_feature :: bool
  noise_padding :: bool

text \<open>\<open>int(x)\<close> for a float: truncation towards zero.\<close>

fun py_int :: "fval \<Rightarrow> error + int" where
  "py_int (Fin x) = Inr (if 0 \<le> x then \<lfloor>x\<rfloor> else \<lceil>x\<rceil>)"
| "py_int NaN = Inl ValueError"
| "py_int PInf = Inl OverflowError"
| "py_int NInf = Inl OverflowError"

text \<open>
  \<open>__init__\<close>, statement by statement. \<open>a and b\<close> evaluates \<open>b\<close> only when \<open>a\<close> is true, so
  line 51 reads the attribute \<open>use_masks\<close> exactly when \<open>noise_padding\<close> is true.
\<close>

definition init :: "config \<Rightarrow> tensor \<Rightarrow> (nat \<Rightarrow> nat \<Rightarrow> nat \<Rightarrow> fval) \<Rightarrow> error + obj" where
  "init cfg raw randn =
     (let self = Map.empty(''num_particles'' \<mapsto> VInt (num_particles cfg));
          self = self(''feature_norms'' \<mapsto> VOptFloats (feature_norms cfg));
          self = self(''feature_shifts'' \<mapsto> VOptFloats (feature_shifts cfg));
          self = self(''use_mask'' \<mapsto> VBool (use_mask cfg)) in
      bind_err (if use_num_particles_jet_feature cfg then getattr self ''use_mask''
                else Inr (VBool False)) (\<lambda>v.
      let self = self(''use_jet_features'' \<mapsto> v) in
      bind_err (if noise_padding cfg then getattr self ''use_masks''
                else Inr (VBool False)) (\<lambda>v.
      let self = self(''noise_padding'' \<mapsto> v);
          dataset = load_dataset raw (num_particles cfg) (num_pad_particles cfg) (use_mask cfg) in
      bind_err (attr_truthy self ''use_jet_features'') (\<lambda>use_jf.
      bind_err (if use_jf
                then map_result Some
                       (get_jet_features self dataset (use_num_particles_jet_feature cfg))
                else Inr None) (\<lambda>jet_features.
      bind_err (normalize_features dataset (feature_norms cfg) (feature_shifts cfg))
        (\<lambda>(dataset, feature_maxes, pt_cutoff).
      let self = self(''feature_maxes'' \<mapsto> VFloats feature_maxes);
          self = self(''pt_cutoff'' \<mapsto> VFloat pt_cutoff) in
      bind_err (attr_truthy self ''noise_padding'') (\<lambda>use_noise.
      bind_err (if use_noise then add_noise_padding self randn dataset else Inr dataset)
        (\<lambda>dataset.
      bind_err (py_int (fmul (Fin (real (shape0 dataset))) (train_fraction cfg))) (\<lambda>tcut.
      let self = self(''data'' \<mapsto>
                   VTensor (if train cfg then jets_upto dataset tcut else jets_from dataset tcut)) in
      bind_err (attr_truthy self ''use_jet_features'') (\<lambda>use_jf.
        if use_jf
        then (case jet_features of
                None \<Rightarrow> Inl UnboundLocalError
              | Some jf \<Rightarrow>
                  Inr (self(''jet_features'' \<mapsto>
                         VMatrix (if train cfg then rows_upto jf tcut else rows_from jf tcut))))
        else Inr self))))))))))"

text \<open>\<open>__len__\<close> is \<open>return len(self.X)\<close>.\<close>

definition len_JetNet :: "obj \<Rightarrow> error + nat" where
  "len_JetNet self = bind_err (getattr self ''X'') py_len"

subsection \<open>The loops, entry by entry\<close>

text \<open>
  What the body of the loop of \<open>normalize_features\<close> does to one entry of its column, and
  what the body of the loop of \<open>unnormalize_features\<close> does to one: both loops are shown
  below to act on column \<open>i\<close> by these and to leave the other columns alone.
\<close>

definition normalize_entry :: "fval option \<Rightarrow> fval option \<Rightarrow> fval \<Rightarrow> fval \<Rightarrow> fval" where
  "normalize_entry target shift mx v =
     (let v = (case target of None \<Rightarrow> v | Some m \<Rightarrow> fmul (fdiv v mx) m)
      in case shift of None \<Rightarrow> v | Some s \<Rightarrow> if s \<noteq> Fin 0 then fadd v s else v)"





subsection \<open>Concrete inputs\<close>

text \<open>The sample of \<open>torch.randn\<close> that is zero everywhere.\<close>

definition randn0 :: "nat \<Rightarrow> nat \<Rightarrow> nat \<Rightarrow> fval" where
  "randn0 = (\<lambda>n p f. Fin 0)"

text \<open>
  A file of two jets of 30 particles: the first particle of each jet is real, with features
  2 (first jet) or 4 (second jet), the other 29 are padding.
\<close>

definition raw30 :: tensor where
  "raw30 = \<lparr>shape0 = 2, shape1 = 30, shape2 = 4,
     el = (\<lambda>n p f. if p = 0 then Fin (if f = 3 then 1 else if n = 0 then 2 else 4)
                     else Fin 0)\<rparr>"

text \<open>The default arguments of \<open>__init__\<close>.\<close>

definition default_cfg :: config where
  "default_cfg = \<lparr>num_particles = 0,
     feature_norms = [Some (Fin 1), Some (Fin 1), Some (Fin 1), Some (Fin 1)],
     feature_shifts = [Some (Fin 0), Some (Fin 0), Some (Fin (- (1/2))), Some (Fin (- (1/2)))],
     use_mask = True, train = True, train_fraction = Fin (7/10), num_pad_particles = 0,
     use_num_particles_jet_feature = True, noise_padding = False\<rparr>"

definition cfg_3_of_30 :: config where
  "cfg_3_of_30 = default_cfg\<lparr>num_particles := 3, num_pad_particles := 1\<rparr>"


text \<open>The defaults without the mask; the jet feature stays requested.\<close>

definition cfg_no_mask :: config where
  "cfg_no_mask = default_cfg\<lparr>use_mask := False\<rparr>"

text \<open>Instances of which only the target particle count matters.\<close>

definition self_target_0 :: obj where
  "self_target_0 = Map.empty(''num_particles'' \<mapsto> VInt 0)"

definition self_target_10 :: obj where
  "self_target_10 = Map.empty(''num_particles'' \<mapsto> VInt 10)"

text \<open>One jet of 10 particles, 5 real ones and 5 padding slots.\<close>

definition jet_5_of_10 :: tensor where
  "jet_5_of_10 = \<lparr>shape0 = 1, shape1 = 10, shape2 = 4,
     el = (\<lambda>n p f. if p < 5 then Fin (if f = 3 then 1 else 2) else Fin 0)\<rparr>"

text \<open>An instance with the attributes that \<open>unnormalize_features\<close> reads.\<close>

definition fitted_self :: obj where
  "fitted_self = Map.empty(
     ''feature_norms'' \<mapsto> VOptFloats [Some (Fin 1), Some (Fin 1), Some (Fin 1), Some (Fin 1)],
     ''feature_shifts'' \<mapsto>
        VOptFloats [Some (Fin 0), Some (Fin 0), Some (Fin (- (1/2))), Some (Fin (- (1/2)))],
     ''feature_maxes'' \<mapsto> VFloats [Fin 4, Fin 4, Fin 4, Fin 1],
     ''use_mask'' \<mapsto> VBool True)"

text \<open>A normalized jet of two particles, the second one masked.\<close>

definition generated2 :: tensor where
  "generated2 = \<lparr>shape0 = 1, shape1 = 2, shape2 = 4,
     el = (\<lambda>n p f. if p = 0 then Fin (1/2) else Fin (if f = 3 then - (1/2) else 1/4))\<rparr>"

text \<open>One jet of two particles whose first feature is 0 everywhere.\<close>

definition zero_column_raw :: tensor where
  "zero_column_raw = \<lparr>shape0 = 1, shape1 = 2, shape2 = 4,
     el = (\<lambda>n p f. if f = 0 then Fin 0
                     else if p = 0 then Fin (if f = 3 then 1 else 2) else Fin 0)\<rparr>"




text \<open>An instance with the target 2, and the sample that is 1 everywhere.\<close>

definition self_target_2 :: obj where
  "self_target_2 = Map.empty(''num_particles'' \<mapsto> VInt 2)"

definition randn1 :: "nat \<Rightarrow> nat \<Rightarrow> nat \<Rightarrow> fval" where
  "randn1 = (\<lambda>n p f. Fin 1)"

text \<open>Stores that hold one tensor at every address.\<close>

definition store_raw30 :: store where
  "store_raw30 = (\<lambda>b. raw30)"

definition store_generated2 :: store where
  "store_generated2 = (\<lambda>b. generated2)"


section \<open>Properties\<close>

subsection \<open>Errors, shapes and columns\<close>

lemma bind_err_Inr_iff: "bind_err m f = Inr y \<longleftrightarrow> (\<exists>x. m = Inr x \<and> f x = Inr y)"
  by (cases m) (simp_all add: bind_err_def)

lemma bind_err_simps [simp]: "bind_err (Inl e) f = Inl e" "bind_err (Inr x) f = f x"
  by (simp_all add: bind_err_def)

lemma map_result_Inr_iff: "map_result g m = Inr y \<longleftrightarrow> (\<exists>x. m = Inr x \<and> y = g x)"
  by (cases m) (auto simp add: map_result_def)

lemma index_Inr_iff: "index xs i = Inr x \<longleftrightarrow> i < length xs \<and> x = xs ! i"
  by (auto simp add: index_def)

lemma col_map_shape [simp]:
  "shape0 (col_map g i t) = shape0 t" "shape1 (col_map g i t) = shape1 t"
  "shape2 (col_map g i t) = shape2 t"
  by (simp_all add: col_map_def)

lemma col_map_el [simp]:
  "el (col_map g i t) n p f = (if f = i then g (el t n p f) else el t n p f)"
  by (simp add: col_map_def)

lemma same_shape_refl [simp]: "same_shape t t"
  by (simp add: same_shape_def)

lemma same_shape_col_map [simp]: "same_shape (col_map g i t) u = same_shape t u"
  by (simp add: same_shape_def)

lemma for_each_same_shape:
  assumes step: "\<And>i s s'. body i s = Inr s' \<Longrightarrow> same_shape s' s"
  shows "for_each body ks s = Inr s' \<Longrightarrow> same_shape s' s"
proof (induction ks arbitrary: s)
  case Nil
  then show ?case by simp
next
  case (Cons k ks)
  then obtain s1 where s1: "body k s = Inr s1" and rest: "for_each body ks s1 = Inr s'"
    by (auto split: sum.splits)
  from Cons.IH [OF rest] step [OF s1] show ?case
    by (simp add: same_shape_def)
qed

lemma normalize_step_same_shape:
  "normalize_step norms shifts maxes i s = Inr s' \<Longrightarrow> same_shape s' s"
  by (auto simp add: normalize_step_def bind_err_Inr_iff split: option.splits if_splits)

lemma normalize_features_same_shape:
  assumes "normalize_features dataset norms shifts = Inr (dataset', maxes, cutoff)"
  shows "same_shape dataset' dataset"
  using assms
  by (auto simp add: normalize_features_def Let_def bind_err_Inr_iff
      intro: for_each_same_shape [OF normalize_step_same_shape])

lemma shape1_load_dataset:
  "int (shape1 (load_dataset raw np pad um)) =
     (if 0 < np - pad \<and> np - pad < int (shape1 raw) then np - pad else int (shape1 raw))
     + (if 0 < pad then pad else 0)"
  by (auto simp add: load_dataset_def Let_def particles_upto_def pad_particles_def
      drop_last_feature_def)

lemma shape1_jets [simp]:
  "shape1 (jets_upto t k) = shape1 t" "shape1 (jets_from t k) = shape1 t"
  by (simp_all add: jets_upto_def jets_from_def Let_def)

subsection \<open>What a successful construction has done\<close>

lemma init_noise_padding: "noise_padding cfg \<Longrightarrow> init cfg raw randn = Inl AttributeError"
  by (simp add: init_def Let_def getattr_def)

lemma init_InrD:
  assumes "init cfg raw randn = Inr self"
  shows "\<not> noise_padding cfg \<and>
    (\<exists>dataset maxes cutoff tcut.
       normalize_features
         (load_dataset raw (num_particles cfg) (num_pad_particles cfg) (use_mask cfg))
         (feature_norms cfg) (feature_shifts cfg) = Inr (dataset, maxes, cutoff)
     \<and> py_int (fmul (Fin (real (shape0 dataset))) (train_fraction cfg)) = Inr tcut
     \<and> self ''data'' =
         Some (VTensor (if train cfg then jets_upto dataset tcut else jets_from dataset tcut))
     \<and> self ''X'' = None
     \<and> self ''use_jet_features'' =
         Some (VBool (use_num_particles_jet_feature cfg \<and> use_mask cfg))
     \<and> (self ''jet_features'' = None
          \<longleftrightarrow> \<not> (use_num_particles_jet_feature cfg \<and> use_mask cfg)))"
proof -
  have np: "\<not> noise_padding cfg"
    using assms init_noise_padding [of cfg raw randn] by auto
  show ?thesis
  proof (cases "use_num_particles_jet_feature cfg \<and> use_mask cfg")
    case True
    with np assms show ?thesis
      by (clarsimp simp add: init_def Let_def attr_truthy_def getattr_def bind_err_Inr_iff
            map_result_Inr_iff) blast
  next
    case False
    with np assms show ?thesis
      by (cases "use_num_particles_jet_feature cfg")
         ((clarsimp simp add: init_def Let_def attr_truthy_def getattr_def bind_err_Inr_iff
            map_result_Inr_iff), blast)+
  qed
qed

lemma init_data_shape1:
  assumes "init cfg raw randn = Inr self"
  shows "\<exists>d. self ''data'' = Some (VTensor d)
     \<and> shape1 d = shape1 (load_dataset raw (num_particles cfg) (num_pad_particles cfg) (use_mask cfg))"
proof -
  from init_InrD [OF assms] obtain dataset maxes cutoff tcut where
    nf: "normalize_features
           (load_dataset raw (num_particles cfg) (num_pad_particles cfg) (use_mask cfg))
           (feature_norms cfg) (feature_shifts cfg) = Inr (dataset, maxes, cutoff)"
    and d: "self ''data'' =
         Some (VTensor (if train cfg then jets_upto dataset tcut else jets_from dataset tcut))"
    by blast
  from normalize_features_same_shape [OF nf] d show ?thesis
    by (simp add: same_shape_def)
qed

subsection \<open>The particle axis\<close>

text \<open>
  Claim C8. For a file of 30 particles per jet and a valid pair of counts (a target between
  1 and 30 with a pad count from 0 to below the target, or target 0 with pad count 0), the
  particle axis of the data of every constructed dataset is the target when the target is
  positive, and 30 when the target is 0.
\<close>

theorem particle_axis_length:
  assumes "init cfg raw randn = Inr self"
    and "shape1 raw = 30"
    and "0 < num_particles cfg \<and> num_particles cfg \<le> 30 \<and> 0 \<le> num_pad_particles cfg
           \<and> num_pad_particles cfg < num_particles cfg
         \<or> num_particles cfg = 0 \<and> num_pad_particles cfg = 0"
  shows "\<exists>d. self ''data'' = Some (VTensor d)
     \<and> int (shape1 d) = (if 0 < num_particles cfg then num_particles cfg else 30)"
proof -
  from init_data_shape1 [OF assms(1)] obtain d where
    d: "self ''data'' = Some (VTensor d)"
    and s: "shape1 d =
      shape1 (load_dataset raw (num_particles cfg) (num_pad_particles cfg) (use_mask cfg))"
    by blast
  have "int (shape1 d) = (if 0 < num_particles cfg then num_particles cfg else 30)"
    unfolding s shape1_load_dataset using assms(2,3) by auto
  with d show ?thesis by blast
qed

theorem particle_axis_length_witness:
  "\<exists>self d. init cfg_3_of_30 raw30 randn0 = Inr self \<and> self ''data'' = Some (VTensor d)
     \<and> shape1 d = 3"
proof -
  have "\<not> isl (init cfg_3_of_30 raw30 randn0)"
    by code_simp
  then obtain self where s: "init cfg_3_of_30 raw30 randn0 = Inr self"
    by (cases "init cfg_3_of_30 raw30 randn0") auto
  have r: "shape1 raw30 = 30"
    by (simp add: raw30_def)
  have c: "0 < num_particles cfg_3_of_30 \<and> num_particles cfg_3_of_30 \<le> 30
      \<and> 0 \<le> num_pad_particles cfg_3_of_30
      \<and> num_pad_particles cfg_3_of_30 < num_particles cfg_3_of_30
    \<or> num_particles cfg_3_of_30 = 0 \<and> num_pad_particles cfg_3_of_30 = 0"
    by (simp add: cfg_3_of_30_def default_cfg_def)
  from particle_axis_length [OF s r c] s show ?thesis
    by (auto simp add: cfg_3_of_30_def default_cfg_def)
qed

text \<open>With the default arguments, target 0, the 30 particles of the file stay.\<close>

lemma particle_axis_default:
  "(case init default_cfg raw30 randn0 of
      Inl e \<Rightarrow> False
    | Inr self \<Rightarrow> (case self ''data'' of Some (VTensor d) \<Rightarrow> shape1 d = 30 | _ \<Rightarrow> False))"
  by code_simp




subsection \<open>The length\<close>

text \<open>
  Claim C1 says that the length of a constructed dataset is the number of jets of its split.
  The constructor stores the split in the attribute \<open>data\<close> and never assigns \<open>X\<close>, which is
  what \<open>__len__\<close> reads: on every constructed dataset the call raises AttributeError.
\<close>

theorem len_raises:
  assumes "init cfg raw randn = Inr self"
  shows "len_JetNet self = Inl AttributeError"
  using init_InrD [OF assms] by (auto simp add: len_JetNet_def getattr_def)

theorem len_raises_witness:
  "\<exists>self. init default_cfg raw30 randn0 = Inr self \<and> len_JetNet self = Inl AttributeError"
proof -
  have "\<not> isl (init default_cfg raw30 randn0)"
    by code_simp
  then obtain self where s: "init default_cfg raw30 randn0 = Inr self"
    by (cases "init default_cfg raw30 randn0") auto
  from len_raises [OF s] s show ?thesis
    by blast
qed

subsection \<open>Options that need the mask\<close>

text \<open>
  Claim C6 says that asking for the jet feature or for noise padding without the mask makes
  the construction fail. For the jet feature it does not: with the defaults and
  \<open>use_mask = False\<close> the construction succeeds.
\<close>

theorem jet_features_without_mask_counterexample:
  "use_num_particles_jet_feature cfg_no_mask \<and> \<not> use_mask cfg_no_mask
   \<and> \<not> isl (init cfg_no_mask raw30 randn0)"
  by code_simp

text \<open>
  Claim C6, amended. Without the mask the request for the jet feature is dropped silently:
  the constructor does what it does when the jet feature is not requested, it stores
  \<open>use_jet_features\<close> as False and no attribute \<open>jet_features\<close>.
\<close>

theorem jet_features_without_mask:
  assumes "\<not> use_mask cfg"
  shows "init cfg raw randn = init (cfg\<lparr>use_num_particles_jet_feature := False\<rparr>) raw randn
     \<and> (\<forall>self. init cfg raw randn = Inr self \<longrightarrow>
           self ''use_jet_features'' = Some (VBool False) \<and> self ''jet_features'' = None)"
proof
  show "init cfg raw randn = init (cfg\<lparr>use_num_particles_jet_feature := False\<rparr>) raw randn"
    using assms by (simp add: init_def Let_def getattr_def attr_truthy_def)
  show "\<forall>self. init cfg raw randn = Inr self \<longrightarrow>
           self ''use_jet_features'' = Some (VBool False) \<and> self ''jet_features'' = None"
  proof (intro allI impI)
    fix self
    assume "init cfg raw randn = Inr self"
    from init_InrD [OF this] assms
    show "self ''use_jet_features'' = Some (VBool False) \<and> self ''jet_features'' = None"
      by auto
  qed
qed

theorem jet_features_without_mask_witness:
  "\<not> use_mask cfg_no_mask
   \<and> init cfg_no_mask raw30 randn0
       = init (cfg_no_mask\<lparr>use_num_particles_jet_feature := False\<rparr>) raw30 randn0
   \<and> (\<exists>self. init cfg_no_mask raw30 randn0 = Inr self \<and> self ''jet_features'' = None)"
proof -
  have m: "\<not> use_mask cfg_no_mask"
    by (simp add: cfg_no_mask_def default_cfg_def)
  have "\<not> isl (init cfg_no_mask raw30 randn0)"
    by code_simp
  then obtain self where s: "init cfg_no_mask raw30 randn0 = Inr self"
    by (cases "init cfg_no_mask raw30 randn0") auto
  from jet_features_without_mask [OF m, of raw30 randn0] s m show ?thesis
    by blast
qed

subsection \<open>The jet feature\<close>

lemma fdiv_zero_special: "is_special (fdiv v (Fin 0))"
  by (cases v) (simp_all add: is_special_def signed_inf_def)

text \<open>
  Claim C7 says that the jet feature is the sum of the mask column over the number of
  particles of the adjusted dataset, 30 when the target is 0. The divisor of the code is
  the attribute \<open>num_particles\<close>, the target itself: for the target 0, which is the default
  and means all particles, every jet feature is a quotient by zero, an infinity or NaN.
\<close>

theorem jet_feature_zero_target:
  assumes "self ''num_particles'' = Some (VInt 0)"
    and "3 < shape2 dataset"
  shows "\<exists>m. get_jet_features self dataset b = Inr m \<and> rows m = shape0 dataset \<and> cols m = 1
     \<and> (\<forall>n. is_special (mel m n 0))"
  using assms by (simp add: get_jet_features_def getattr_def fdiv_zero_special)

theorem jet_feature_zero_target_witness:
  "self_target_0 ''num_particles'' = Some (VInt 0) \<and> 3 < shape2 raw30
   \<and> (\<exists>m. get_jet_features self_target_0 raw30 True = Inr m \<and> is_special (mel m 0 0))"
proof -
  have a: "self_target_0 ''num_particles'' = Some (VInt 0)"
    by (simp add: self_target_0_def)
  have b: "3 < shape2 raw30"
    by (simp add: raw30_def)
  from jet_feature_zero_target [of self_target_0 raw30 True, OF a b] a b show ?thesis
    by blast
qed

text \<open>
  With the default arguments the stored jet feature of a jet with one real particle is
  infinite, where the claim gives 1/30. For a positive target the example of the claim
  holds: 5 real particles of 10 give 0.5, in a result of shape [1, 1].
\<close>

lemma jet_feature_default_construction:
  "(case init default_cfg raw30 randn0 of
      Inl e \<Rightarrow> False
    | Inr self \<Rightarrow> (case self ''jet_features'' of
                     Some (VMatrix m) \<Rightarrow> mel m 0 0 = PInf
                   | _ \<Rightarrow> False))"
  by code_simp

lemma jet_feature_5_of_10:
  "map_result (\<lambda>m. (rows m, cols m, mel m 0 0)) (get_jet_features self_target_10 jet_5_of_10 True)
     = Inr (1, 1, Fin (1/2))"
  by code_simp

subsection \<open>What unnormalize_features returns\<close>

text \<open>
  Claim C2 says that \<open>unnormalize_features\<close> returns the mask with the feature array in the
  separate mode and the single array in the combined mode. Every call that returns gives
  a pair whose first component is the last column of the array; the second component is
  the mask in the separate mode and the array in the combined mode. So the combined mode
  does not return the single array, and the separate mode does not return the features.
\<close>

theorem unnormalize_returns_pair:
  assumes "unnormalize_features self dataset ret_mask_separate is_real zero_mask zero_neg = Inr r"
  shows "\<exists>d m. unnormalize_array self dataset is_real zero_mask zero_neg = Inr (d, m)
     \<and> r = RTuple (RColumn (column d (shape2 d - 1)))
             (if ret_mask_separate then (case m of None \<Rightarrow> RNone | Some b \<Rightarrow> RMask b)
              else RTensor d)
     \<and> r \<noteq> RTensor d"
  using assms
  by (auto simp add: unnormalize_features_def bind_err_Inr_iff split: if_splits)

theorem unnormalize_returns_pair_witness:
  "\<exists>r c d. unnormalize_features fitted_self generated2 False False True True = Inr r
     \<and> r = RTuple (RColumn c) (RTensor d)"
proof -
  have "\<not> isl (unnormalize_features fitted_self generated2 False False True True)"
    by code_simp
  then obtain r where r: "unnormalize_features fitted_self generated2 False False True True = Inr r"
    by (cases "unnormalize_features fitted_self generated2 False False True True") auto
  from unnormalize_returns_pair [OF r] r show ?thesis
    by auto
qed

subsection \<open>The loop of normalize_features, column by column\<close>

lemma tensor_eqI:
  "shape0 s = shape0 t \<Longrightarrow> shape1 s = shape1 t \<Longrightarrow> shape2 s = shape2 t \<Longrightarrow> el s = el t
    \<Longrightarrow> s = (t :: tensor)"
  by simp

lemma col_map_col_map: "col_map g i (col_map h i t) = col_map (\<lambda>v. g (h v)) i t"
  by (rule tensor_eqI) (auto simp add: fun_eq_iff)

lemma col_map_ident: "col_map (\<lambda>v. v) i t = t"
  by (rule tensor_eqI) (auto simp add: fun_eq_iff)

lemma same_shape_col_map2 [simp]: "same_shape u (col_map g i t) = same_shape u t"
  by (simp add: same_shape_def)

lemma normalize_step_col_map:
  assumes "i < length norms" "i < length shifts" "i < length maxes"
  shows "normalize_step norms shifts maxes i s =
     Inr (col_map (normalize_entry (norms ! i) (shifts ! i) (maxes ! i)) i s)"
  using assms
  by (auto simp add: normalize_step_def index_def normalize_entry_def col_map_col_map
      fun_eq_iff split: option.splits intro!: tensor_eqI)

lemma normalize_step_InrD:
  "normalize_step norms shifts maxes i s = Inr s' \<Longrightarrow> i < length norms \<and> i < length shifts"
  by (auto simp add: normalize_step_def bind_err_Inr_iff index_Inr_iff)

lemma for_each_Inr_steps:
  "for_each body ks s = Inr s' \<Longrightarrow> k \<in> set ks \<Longrightarrow> \<exists>t t'. body k t = Inr t'"
proof (induction ks arbitrary: s)
  case Nil
  then show ?case by simp
next
  case (Cons a ks)
  then obtain s1 where s1: "body a s = Inr s1" and rest: "for_each body ks s1 = Inr s'"
    by (auto split: sum.splits)
  show ?case
  proof (cases "k = a")
    case True
    with s1 show ?thesis by blast
  next
    case False
    with Cons.prems have "k \<in> set ks" by simp
    from Cons.IH [OF rest this] show ?thesis .
  qed
qed

lemma for_each_col_maps:
  assumes "\<And>k s. k \<in> set ks \<Longrightarrow> body k s = Inr (col_map (g k) k s)"
    and "distinct ks"
  shows "\<exists>s'. for_each body ks s = Inr s' \<and> same_shape s' s
     \<and> (\<forall>n p f. el s' n p f = (if f \<in> set ks then g f (el s n p f) else el s n p f))"
  using assms
proof (induction ks arbitrary: s)
  case Nil
  then show ?case by simp
next
  case (Cons a ks)
  have a: "body a s = Inr (col_map (g a) a s)"
    using Cons.prems(1) by simp
  have "\<exists>s'. for_each body ks (col_map (g a) a s) = Inr s' \<and> same_shape s' (col_map (g a) a s)
     \<and> (\<forall>n p f. el s' n p f =
           (if f \<in> set ks then g f (el (col_map (g a) a s) n p f)
            else el (col_map (g a) a s) n p f))"
    using Cons.prems by (intro Cons.IH) auto
  then obtain s' where s': "for_each body ks (col_map (g a) a s) = Inr s'"
    and sh: "same_shape s' (col_map (g a) a s)"
    and e: "\<And>n p f. el s' n p f =
           (if f \<in> set ks then g f (el (col_map (g a) a s) n p f)
            else el (col_map (g a) a s) n p f)"
    by blast
  have "a \<notin> set ks"
    using Cons.prems(2) by simp
  then have "\<forall>n p f. el s' n p f = (if f \<in> set (a # ks) then g f (el s n p f) else el s n p f)"
    by (auto simp add: e)
  with a s' sh show ?case
    by simp
qed

lemma collect_InrD:
  "collect g ks = Inr xs \<Longrightarrow>
     length xs = length ks \<and> (\<forall>j<length ks. g (ks ! j) = Inr (xs ! j))"
proof (induction ks arbitrary: xs)
  case Nil
  then show ?case by simp
next
  case (Cons k ks)
  then obtain y ys where y: "g k = Inr y" and ys: "collect g ks = Inr ys" and xs: "xs = y # ys"
    by (auto split: sum.splits)
  from Cons.IH [OF ys] y xs show ?case
    by (auto simp add: nth_Cons split: nat.splits)
qed

lemma normalize_features_InrD:
  assumes "normalize_features x norms shifts = Inr (y, maxes, cutoff)"
  shows "same_shape y x \<and> length maxes = shape2 x
     \<and> (\<forall>i<shape2 x. i < length norms \<and> i < length shifts
           \<and> max_abs x i = Inr (maxes ! i)
           \<and> (\<forall>n p. el y n p i =
                 normalize_entry (norms ! i) (shifts ! i) (maxes ! i) (el x n p i)))"
proof -
  from assms obtain
    mx: "collect (max_abs x) [0..<shape2 x] = Inr maxes"
    and loop: "for_each (normalize_step norms shifts maxes) [0..<shape2 x] x = Inr y"
    by (auto simp add: normalize_features_def Let_def bind_err_Inr_iff)
  from collect_InrD [OF mx] have len: "length maxes = shape2 x"
    and m: "\<And>i. i < shape2 x \<Longrightarrow> max_abs x i = Inr (maxes ! i)"
    by auto
  have rng: "i < length norms \<and> i < length shifts" if "i < shape2 x" for i
  proof -
    from that have "i \<in> set [0..<shape2 x]" by simp
    from for_each_Inr_steps [OF loop this] normalize_step_InrD show ?thesis
      by blast
  qed
  have "\<exists>s'. for_each (normalize_step norms shifts maxes) [0..<shape2 x] x = Inr s'
     \<and> same_shape s' x
     \<and> (\<forall>n p f. el s' n p f =
           (if f \<in> set [0..<shape2 x]
            then normalize_entry (norms ! f) (shifts ! f) (maxes ! f) (el x n p f)
            else el x n p f))"
    by (rule for_each_col_maps) (auto simp add: normalize_step_col_map rng len)
  with loop have "same_shape y x"
    and "\<forall>n p f. el y n p f =
           (if f \<in> set [0..<shape2 x]
            then normalize_entry (norms ! f) (shifts ! f) (maxes ! f) (el x n p f)
            else el x n p f)"
    by auto
  with len m rng show ?thesis
    by auto
qed


lemma set_entries: "set (entries m) = {mel m n p | n p. n < rows m \<and> p < cols m}"
  by (fastforce simp add: entries_def)

lemma foldl_fmax_zero:
  "\<forall>v\<in>set vs. v = Fin 0 \<Longrightarrow> foldl fmax (Fin 0) (map fabs vs) = Fin 0"
  by (induction vs) (simp_all add: fmax_def)

lemma max_abs_zero_column:
  assumes "max_abs x i = Inr mx"
    and "\<forall>n<shape0 x. \<forall>p<shape1 x. el x n p i = Fin 0"
  shows "mx = Fin 0"
proof -
  from assms(1) obtain v vs where vs: "entries (column x i) = v # vs"
    and mx: "mx = foldl fmax (fabs v) (map fabs vs)"
    by (auto simp add: max_abs_def split: list.splits)
  have "\<forall>u\<in>set (entries (column x i)). u = Fin 0"
    using assms(2) by (auto simp add: set_entries column_def)
  with vs have "v = Fin 0" and "\<forall>u\<in>set vs. u = Fin 0"
    by auto
  with mx show ?thesis
    by (simp add: foldl_fmax_zero)
qed

subsection \<open>A column that is zero everywhere\<close>

text \<open>
  Claim C9 says that a column that is 0 everywhere is free of NaN after the
  normalization. It is not: with the default targets and shifts, both entries of such a
  column are NaN afterwards, and the fitted maximum is 0.
\<close>

theorem zero_column_counterexample:
  "map_result (\<lambda>(d, mx, c). (el d 0 0 0, el d 0 1 0, mx ! 0))
     (normalize_features zero_column_raw (feature_norms default_cfg) (feature_shifts default_cfg))
   = Inr (NaN, NaN, Fin 0)"
  by code_simp

text \<open>
  Claim C9, amended. The division by the observed maximum is unguarded: when a column is 0
  everywhere and its target is not null, the observed maximum is 0 and every entry of the
  column is NaN after \<open>normalize_features\<close>, whatever the target and the shift.
\<close>

theorem zero_column_becomes_nan:
  assumes "normalize_features dataset norms shifts = Inr (dataset', maxes, cutoff)"
    and "i < shape2 dataset"
    and "norms ! i = Some m"
    and "\<forall>n<shape0 dataset. \<forall>p<shape1 dataset. el dataset n p i = Fin 0"
  shows "maxes ! i = Fin 0
     \<and> (\<forall>n<shape0 dataset. \<forall>p<shape1 dataset. el dataset' n p i = NaN)"
proof -
  from normalize_features_InrD [OF assms(1)] assms(2)
  have mx: "max_abs dataset i = Inr (maxes ! i)"
    and e: "\<And>n p. el dataset' n p i =
        normalize_entry (norms ! i) (shifts ! i) (maxes ! i) (el dataset n p i)"
    by auto
  from max_abs_zero_column [OF mx assms(4)] have z: "maxes ! i = Fin 0" .
  have "normalize_entry (Some m) (shifts ! i) (Fin 0) (Fin 0) = NaN"
    by (simp add: normalize_entry_def split: option.splits)
  with e z assms(3,4) show ?thesis
    by simp
qed

theorem zero_column_becomes_nan_witness:
  "\<exists>d mx c. normalize_features zero_column_raw (feature_norms default_cfg)
       (feature_shifts default_cfg) = Inr (d, mx, c)
     \<and> mx ! 0 = Fin 0 \<and> el d 0 0 0 = NaN \<and> el d 0 1 0 = NaN"
proof -
  have "\<not> isl (normalize_features zero_column_raw (feature_norms default_cfg)
      (feature_shifts default_cfg))"
    by code_simp
  then obtain d mx c where n: "normalize_features zero_column_raw (feature_norms default_cfg)
      (feature_shifts default_cfg) = Inr (d, mx, c)"
    by (cases "normalize_features zero_column_raw (feature_norms default_cfg)
      (feature_shifts default_cfg)") auto
  have a: "0 < shape2 zero_column_raw"
    and b: "feature_norms default_cfg ! 0 = Some (Fin 1)"
    and c: "\<forall>n<shape0 zero_column_raw. \<forall>p<shape1 zero_column_raw. el zero_column_raw n p 0 = Fin 0"
    by (simp_all add: zero_column_raw_def default_cfg_def)
  from zero_column_becomes_nan [OF n a b c] n show ?thesis
    by (auto simp add: zero_column_raw_def)
qed

subsection \<open>Normalizing and back\<close>











subsection \<open>Noise padding\<close>

lemma fadd_zero [simp]: "fadd v (Fin 0) = v"
  by (cases v) simp_all






text \<open>In the same call the padding slot does get noise, and its mask stays.\<close>

lemma noise_in_padding_slot:
  "map_result (\<lambda>d. (el d 0 1 0, el d 0 1 2, el d 0 1 3))
     (add_noise_padding self_target_2 randn1 generated2)
   = Inr (Fin (1/4 + 1/5), Fin (1/4 + 1/10), Fin (- (1/2)))"
  by code_simp

subsection \<open>In place\<close>

lemma raise_or_simps [simp]:
  "raise_or (Inl e) k h = (h, Inl e)" "raise_or (Inr x) k h = k x h"
  by (simp_all add: raise_or_def)

lemma inplace_apply [simp]: "inplace a g h b = (if b = a then g (h a) else h b)"
  by (simp add: inplace_def)

lemma for_each_st_InrD:
  assumes step: "\<And>i h h' u. body_st i h = (h', Inr u) \<Longrightarrow>
      body i (h a) = Inr (h' a) \<and> (\<forall>b. b \<noteq> a \<longrightarrow> h' b = h b)"
  shows "for_each_st body_st ks h = (h', Inr u) \<Longrightarrow>
      for_each body ks (h a) = Inr (h' a) \<and> (\<forall>b. b \<noteq> a \<longrightarrow> h' b = h b)"
proof (induction ks arbitrary: h)
  case Nil
  then show ?case by simp
next
  case (Cons k ks)
  then obtain h1 u1 where h1: "body_st k h = (h1, Inr u1)"
    and rest: "for_each_st body_st ks h1 = (h', Inr u)"
    by (auto split: prod.splits sum.splits)
  from step [OF h1] Cons.IH [OF rest] show ?case
    by simp
qed

lemma normalize_step_st_InrD:
  assumes "normalize_step_st norms shifts maxes a i h = (h', Inr u)"
  shows "normalize_step norms shifts maxes i (h a) = Inr (h' a)
     \<and> (\<forall>b. b \<noteq> a \<longrightarrow> h' b = h b)"
  using assms
  by (auto simp add: normalize_step_st_def normalize_step_def index_def map_result_def Let_def
      split: if_splits option.splits)

lemma unnormalize_step_st_InrD:
  assumes "unnormalize_step_st self a i h = (h', Inr u)"
  shows "unnormalize_step self i (h a) = Inr (h' a) \<and> (\<forall>b. b \<noteq> a \<longrightarrow> h' b = h b)"
proof -
  obtain shifts where s: "attr_optfloats self ''feature_shifts'' = Inr shifts"
    using assms by (cases "attr_optfloats self ''feature_shifts''")
      (auto simp add: unnormalize_step_st_def)
  show ?thesis
  proof (cases "attr_optfloats self ''feature_norms''")
    case (Inl e)
    with assms s show ?thesis
      by (auto simp add: unnormalize_step_st_def index_def Let_def split: if_splits)
  next
    case (Inr norms)
    show ?thesis
    proof (cases "attr_floats self ''feature_maxes''")
      case (Inl e)
      with assms s Inr show ?thesis
        by (auto simp add: unnormalize_step_st_def unnormalize_step_def index_def Let_def
            split: if_splits option.splits)
    next
      case (Inr maxes)
      with assms s \<open>attr_optfloats self ''feature_norms'' = Inr norms\<close> show ?thesis
        by (auto simp add: unnormalize_step_st_def unnormalize_step_def index_def Let_def
            split: if_splits option.splits)
    qed
  qed
qed

lemma normalize_features_st_InrD:
  assumes "normalize_features_st a norms shifts h = (h', Inr (r, maxes, cutoff))"
  shows "r = a \<and> normalize_features (h a) norms shifts = Inr (h' a, maxes, cutoff)
     \<and> (\<forall>b. b \<noteq> a \<longrightarrow> h' b = h b)"
proof -
  from assms obtain mx where mx: "collect (max_abs (h a)) [0..<shape2 (h a)] = Inr mx"
    by (cases "collect (max_abs (h a)) [0..<shape2 (h a)]")
      (auto simp add: normalize_features_st_def Let_def)
  obtain h1 r1 where loop:
    "for_each_st (normalize_step_st norms shifts mx a) [0..<shape2 (h a)] h = (h1, r1)"
    by (cases "for_each_st (normalize_step_st norms shifts mx a) [0..<shape2 (h a)] h")
  from assms mx loop obtain u where r1: "r1 = Inr u"
    by (cases r1) (auto simp add: normalize_features_st_def Let_def)
  from for_each_st_InrD [of "normalize_step_st norms shifts mx a"
      "normalize_step norms shifts mx" a, OF normalize_step_st_InrD loop [unfolded r1]]
  have pure: "for_each (normalize_step norms shifts mx) [0..<shape2 (h a)] (h a) = Inr (h1 a)"
    and frame: "\<forall>b. b \<noteq> a \<longrightarrow> h1 b = h b"
    by auto
  from assms mx loop r1 have eqs: "r = a" "mx = maxes" "h' = h1"
    "pt_cutoff_of (h1 a) = Inr cutoff"
    by (cases "pt_cutoff_of (h1 a)"; simp add: normalize_features_st_def Let_def)+
  with pure frame mx show ?thesis
    by (simp add: normalize_features_def Let_def)
qed


lemma unnormalize_features_st_InrD:
  assumes "unnormalize_features_st self a rms is_real zero_mask zero_neg h = (h', Inr r)"
  shows "\<exists>mask. unnormalize_array self (h a) is_real zero_mask zero_neg = Inr (h' a, mask)
     \<and> r = Tuple (ColumnView a (shape2 (h' a) - 1))
             (if rms then (case mask of None \<Rightarrow> NoneRef | Some m \<Rightarrow> Mask m) else Ref a)
     \<and> (\<forall>b. b \<noteq> a \<longrightarrow> h' b = h b)"
proof -
  obtain h1 r1 where loop:
    "for_each_st (unnormalize_step_st self a) [0..<shape2 (h a)] h = (h1, r1)"
    by (cases "for_each_st (unnormalize_step_st self a) [0..<shape2 (h a)] h")
  from assms loop obtain u where r1: "r1 = Inr u"
    by (cases r1) (auto simp add: unnormalize_features_st_def Let_def)
  from for_each_st_InrD [of "unnormalize_step_st self a" "unnormalize_step self" a,
      OF unnormalize_step_st_InrD loop [unfolded r1]]
  have pure: "for_each (unnormalize_step self) [0..<shape2 (h a)] (h a) = Inr (h1 a)"
    and frame: "\<forall>b. b \<noteq> a \<longrightarrow> h1 b = h b"
    by auto
  from assms loop r1 obtain um where um: "attr_truthy self ''use_mask'' = Inr um"
    by (cases "attr_truthy self ''use_mask''")
      (auto simp add: unnormalize_features_st_def Let_def)
  from assms loop r1 um frame show ?thesis
    unfolding unnormalize_features_st_def unnormalize_array_def Let_def pure
    by (auto simp add: zero_unmasked_def split: if_splits option.splits)
qed


text \<open>
  Claim C10. A call of \<open>normalize_features\<close> that returns gives back the address it was
  given, and the store then holds at that address the normalized tensor; a call of
  \<open>unnormalize_features\<close> that returns gives a pair of a view of the last column of the
  argument and, in the combined mode, the argument itself, and the store holds at that
  address the unnormalized tensor. No other address changes.
\<close>

theorem in_place_mutation:
  "(normalize_features_st a norms shifts h = (h', Inr (r, maxes, cutoff)) \<longrightarrow>
      r = a \<and> normalize_features (h a) norms shifts = Inr (h' a, maxes, cutoff)
      \<and> (\<forall>b. b \<noteq> a \<longrightarrow> h' b = h b))
   \<and> (unnormalize_features_st self a rms is_real zero_mask zero_neg h = (h'', Inr r') \<longrightarrow>
      (\<exists>mask. unnormalize_array self (h a) is_real zero_mask zero_neg = Inr (h'' a, mask)
         \<and> r' = Tuple (ColumnView a (shape2 (h'' a) - 1))
                  (if rms then (case mask of None \<Rightarrow> NoneRef | Some m \<Rightarrow> Mask m)
                   else Ref a))
      \<and> (\<forall>b. b \<noteq> a \<longrightarrow> h'' b = h b))"
  using normalize_features_st_InrD [of a norms shifts h h' r maxes cutoff]
    unnormalize_features_st_InrD [of self a rms is_real zero_mask zero_neg h h'' r']
  by blast

lemma normalize_features_st_returns: "\<exists>h' r maxes c. normalize_features_st 0 (feature_norms default_cfg) (feature_shifts default_cfg)
    store_raw30 = (h', Inr (r, maxes, c))"
proof -
  let ?n = "normalize_features_st 0 (feature_norms default_cfg) (feature_shifts default_cfg)
    store_raw30"
  have "\<not> isl (snd ?n)"
    by code_simp
  then obtain x where "snd ?n = Inr x"
    by (cases "snd ?n") auto
  then have "?n = (fst ?n, Inr (fst x, fst (snd x), snd (snd x)))"
    by (simp add: prod_eq_iff)
  then show ?thesis
    by blast
qed

lemma unnormalize_features_st_returns: "\<exists>h'' r'. unnormalize_features_st fitted_self 0 False False True True store_generated2 = (h'', Inr r')"
proof -
  let ?u = "unnormalize_features_st fitted_self 0 False False True True store_generated2"
  have "\<not> isl (snd ?u)"
    by code_simp
  then obtain x where "snd ?u = Inr x"
    by (cases "snd ?u") auto
  then have "?u = (fst ?u, Inr x)"
    by (simp add: prod_eq_iff)
  then show ?thesis
    by blast
qed


lemma normalized_first_entry:
  "map_result (\<lambda>(d, mx, c). el d 0 0 0)
     (normalize_features raw30 (feature_norms default_cfg) (feature_shifts default_cfg))
   = Inr (Fin (1/2))"
  by code_simp

lemma unnormalized_first_entry:
  "map_result (\<lambda>(d, m). el d 0 0 0) (unnormalize_array fitted_self generated2 False True True)
   = Inr (Fin 2)"
  by code_simp

theorem in_place_mutation_witness:
  "\<exists>h' maxes c h'' v.
     normalize_features_st 0 (feature_norms default_cfg) (feature_shifts default_cfg) store_raw30
       = (h', Inr (0, maxes, c))
     \<and> el (store_raw30 0) 0 0 0 = Fin 2 \<and> el (h' 0) 0 0 0 = Fin (1/2)
     \<and> unnormalize_features_st fitted_self 0 False False True True store_generated2
       = (h'', Inr (Tuple v (Ref 0)))
     \<and> el (store_generated2 0) 0 0 0 = Fin (1/2) \<and> el (h'' 0) 0 0 0 = Fin 2"
proof -
  from normalize_features_st_returns obtain h' r maxes c where
    n: "normalize_features_st 0 (feature_norms default_cfg) (feature_shifts default_cfg)
      store_raw30 = (h', Inr (r, maxes, c))"
    by blast
  from unnormalize_features_st_returns obtain h'' r' where
    u: "unnormalize_features_st fitted_self 0 False False True True store_generated2
      = (h'', Inr r')"
    by blast
  from in_place_mutation [THEN conjunct1, THEN mp, OF n]
  have r: "r = 0"
    and nf: "normalize_features (store_raw30 0) (feature_norms default_cfg)
       (feature_shifts default_cfg) = Inr (h' 0, maxes, c)"
    by simp_all
  from in_place_mutation [THEN conjunct2, THEN mp, OF u]
  obtain mask where un: "unnormalize_array fitted_self (store_generated2 0) False True True
       = Inr (h'' 0, mask)"
    and r': "r' = Tuple (ColumnView 0 (shape2 (h'' 0) - 1)) (Ref 0)"
    by auto
  from nf have nf': "normalize_features raw30 (feature_norms default_cfg)
       (feature_shifts default_cfg) = Inr (h' 0, maxes, c)"
    by (simp only: store_raw30_def)
  from un have un': "unnormalize_array fitted_self generated2 False True True = Inr (h'' 0, mask)"
    by (simp only: store_generated2_def)
  from normalized_first_entry have e1: "el (h' 0) 0 0 0 = Fin (1/2)"
    unfolding nf' by (simp add: map_result_def)
  from unnormalized_first_entry have e2: "el (h'' 0) 0 0 0 = Fin 2"
    unfolding un' by (simp add: map_result_def)
  have e0: "el (store_raw30 0) 0 0 0 = Fin 2" "el (store_generated2 0) 0 0 0 = Fin (1/2)"
    by (simp_all add: store_raw30_def raw30_def store_generated2_def generated2_def)
  from n [unfolded r] u [unfolded r'] e1 e2 e0 show ?thesis
    by blast
qed

end
